theory Spec2Isabelle
  imports Complex_Main "HOL-Library.Char_ord" "HOL-Library.List_Lexorder" "HOL-Library.Multiset"
    "HOL-Library.Log_Nat"
begin

section \<open>Stock price changes and headlines: a model of \<^verbatim>\<open>main.py\<close>\<close>

text \<open>
  The program fetches a daily price series per company, looks at three closing prices,
  reports every adjacent pair that differs by at least one percent together with a news
  headline, and stores the report in a file and a database table.

  Conventions of the model.
  \<^item> An exception is a value of \<open>exn\<close>; a function that may raise returns \<open>exn + 'a\<close>
    with \<open>Inl\<close> for the exception.
  \<^item> The two HTTP services and the database engine are parameters: a service is a
    function from the request to an exception or a decoded response.
  \<^item> Effects (requests sent, log lines, files, the table) are fields of a \<open>world\<close>
    record that every effectful function takes and returns.
  \<^item> A \<^verbatim>\<open>float\<close> is a binary64 number, given by its exact rational value, or NaN.
    Every arithmetic operation rounds its exact result to the nearest binary64 number, a
    tie going to the even significand; \<^verbatim>\<open>0.01\<close> is the binary64 number nearest to
    \<open>1/100\<close>. Magnitudes beyond the largest binary64 number, the infinities and the sign
    of zero are outside the model.
  \<^item> A JSON object is an association list with distinct keys, in document order.
  \<^item> A pandas \<^verbatim>\<open>Series\<close> with string labels is a list of (label, value) pairs;
    \<^verbatim>\<open>s[i]\<close> with an integer \<open>i\<close> reads by position (pandas before 3.0).
\<close>

subsection \<open>Exceptions\<close>

datatype exn =
    KeyError
  | IndexError
  | ValueError
  | HTTPError
  | OtherException string
  | EmptyResultException string string

subsection \<open>Floating point values\<close>

datatype float64 = Fin rat | NaN

text \<open>\<^verbatim>\<open>rint\<close>: the nearest integer, a tie going to the even one.\<close>

definition rint :: "rat \<Rightarrow> int" where
  "rint x =
     (let f = \<lfloor>x\<rfloor>; d = x - of_int f
      in if d < 1 / 2 then f
         else if 1 / 2 < d then f + 1
         else if even f then f else f + 1)"

text \<open>
  Rounding to binary64. For a positive \<open>x\<close>, \<open>floor_log2 x\<close> is the exponent of the
  largest power of two that is at most \<open>x\<close>. A binary64 number near \<open>x\<close> is a multiple of
  two to the power \<open>ulp_exp x\<close>: 52 binary places below the leading one, and never finer
  than the subnormal spacing. \<open>fl x\<close> is the multiple nearest to \<open>x\<close>.
\<close>

definition floor_log2 :: "rat \<Rightarrow> int" where
  "floor_log2 x = (if 1 \<le> x then bitlen \<lfloor>x\<rfloor> - 1 else - bitlen (\<lceil>1 / x\<rceil> - 1))"

definition ulp_exp :: "rat \<Rightarrow> int" where
  "ulp_exp x = max (floor_log2 \<bar>x\<bar> - 52) (- 1074)"

definition fl :: "rat \<Rightarrow> rat" where
  "fl x =
     (if x = 0 then 0
      else (let e = ulp_exp x
            in sgn x * of_int (rint (\<bar>x\<bar> / 2 powi e)) * 2 powi e))"

fun fsub :: "float64 \<Rightarrow> float64 \<Rightarrow> float64" where
  "fsub (Fin a) (Fin b) = Fin (fl (a - b))"
| "fsub _ _ = NaN"

fun fmul :: "float64 \<Rightarrow> float64 \<Rightarrow> float64" where
  "fmul (Fin a) (Fin b) = Fin (fl (a * b))"
| "fmul _ _ = NaN"

fun fabs :: "float64 \<Rightarrow> float64" where
  "fabs (Fin a) = Fin \<bar>a\<bar>"
| "fabs NaN = NaN"

text \<open>Comparisons with NaN are false, also \<open>NaN == NaN\<close>.\<close>

fun fge :: "float64 \<Rightarrow> float64 \<Rightarrow> bool" where
  "fge (Fin a) (Fin b) = (a \<ge> b)"
| "fge _ _ = False"

fun feq :: "float64 \<Rightarrow> float64 \<Rightarrow> bool" where
  "feq (Fin a) (Fin b) = (a = b)"
| "feq _ _ = False"

text \<open>
  \<^verbatim>\<open>round(x, 2)\<close> on a numpy float: the product with 100, \<^verbatim>\<open>rint\<close> of it, and the
  quotient by 100, the product and the quotient each rounded to binary64.
\<close>

fun round2 :: "float64 \<Rightarrow> float64" where
  "round2 (Fin a) = Fin (fl (of_int (rint (fl (a * 100))) / 100))"
| "round2 NaN = NaN"

subsection \<open>Responses of the two services\<close>

text \<open>
  The price service answers with an object; under the key \<^verbatim>\<open>Time Series (Daily)\<close> it
  holds an object from date to an object from field name to a string. \<open>StockEmpty\<close>
  is the value \<^verbatim>\<open>null\<close> or an empty list; any other value of a key (a message, the
  meta data) is \<open>StockOther\<close>.
\<close>

type_synonym day_record = "(string \<times> string) list"
type_synonym time_series = "(string \<times> day_record) list"

datatype stock_section = Series time_series | StockEmpty | StockOther

type_synonym stock_json = "(string \<times> stock_section) list"

text \<open>
  The news service answers with an object; under \<^verbatim>\<open>articles\<close> it holds a list of
  objects from field name to a string or \<^verbatim>\<open>null\<close>. \<open>NewsNull\<close> is the value
  \<^verbatim>\<open>null\<close>, \<open>NewsOther\<close> a string, number or object of scalars.
\<close>

type_synonym article = "(string \<times> string option) list"

datatype news_section = Articles "article list" | NewsNull | NewsOther

type_synonym news_json = "(string \<times> news_section) list"

type_synonym stock_api = "string \<Rightarrow> exn + stock_json"
type_synonym news_api = "string \<Rightarrow> string \<Rightarrow> exn + news_json"

subsection \<open>The report and the world\<close>

text \<open>What a cell of an object column holds: a string, \<^verbatim>\<open>None\<close>, or the missing value.\<close>

datatype cell = Str string | PyNone | Missing

record change_event =
  company :: string
  date :: string
  positive_change :: float64
  title :: cell

type_synonym report = "change_event list"

text \<open>
  The world: the requests sent to the two services, the exceptions that the handlers at
  lines 183 and 192 gave to \<^verbatim>\<open>logging.error\<close>, the two files, the frames handed to
  \<^verbatim>\<open>to_sql\<close>, and the rows of the table. Not recorded: the archive files of
  \<^verbatim>\<open>execute_request\<close>, the line printed per event, and the message that
  \<^verbatim>\<open>process_news\<close> logs when it falls back.
\<close>

record world =
  stock_requests :: "string list"
  news_requests :: "(string \<times> string) list"
  logged_exceptions :: "exn list"
  out_result_csv :: "report option"
  out_db_result_csv :: "report option"
  to_sql_rows :: "report list"
  db_table :: report

text \<open>The database engine: the append and the fixed query, each of which may raise.\<close>

record engine =
  to_sql :: "report \<Rightarrow> report \<Rightarrow> exn + report"
  read_sql :: "report \<Rightarrow> exn + report"

subsection \<open>Requests\<close>

text \<open>
  \<^verbatim>\<open>execute_request\<close> sends one request and re-raises whatever goes wrong;
  \<^verbatim>\<open>get_stock_prices\<close> and \<^verbatim>\<open>get_news\<close> build the parameters and re-raise as well.
\<close>

definition get_stock_prices :: "stock_api \<Rightarrow> string \<Rightarrow> world \<Rightarrow> (exn + stock_json) \<times> world" where
  "get_stock_prices api stock w =
     (api stock, w\<lparr>stock_requests := stock_requests w @ [stock]\<rparr>)"

definition get_news :: "news_api \<Rightarrow> string \<Rightarrow> string \<Rightarrow> world \<Rightarrow> (exn + news_json) \<times> world" where
  "get_news api company_name from_date w =
     (api company_name from_date,
      w\<lparr>news_requests := news_requests w @ [(company_name, from_date)]\<rparr>)"

subsection \<open>Data frames\<close>

text \<open>The distinct elements of a list in the order of their first occurrence.\<close>

fun uniq :: "'a list \<Rightarrow> 'a list" where
  "uniq [] = []"
| "uniq (x # xs) = x # filter (\<lambda>y. y \<noteq> x) (uniq xs)"

text \<open>
  \<^verbatim>\<open>pd.DataFrame\<close> of a list of objects: one row per object, one column per key that
  occurs. Of a column only its presence matters here.
\<close>

definition frame_columns :: "article list \<Rightarrow> string list" where
  "frame_columns rows = uniq (concat (map (map fst) rows))"

definition DataFrame_news :: "news_section \<Rightarrow> exn + article list" where
  "DataFrame_news sec =
     (case sec of Articles rows \<Rightarrow> Inr rows | NewsNull \<Rightarrow> Inr [] | NewsOther \<Rightarrow> Inl ValueError)"

text \<open>\<^verbatim>\<open>df.loc[0, col]\<close>: row label 0 and the column must exist.\<close>

definition loc0 :: "article list \<Rightarrow> string \<Rightarrow> exn + cell" where
  "loc0 rows col =
     (case rows of
        [] \<Rightarrow> Inl KeyError
      | r # _ \<Rightarrow>
          if col \<in> set (frame_columns rows)
          then (case map_of r col of
                  None \<Rightarrow> Inr Missing
                | Some None \<Rightarrow> Inr PyNone
                | Some (Some s) \<Rightarrow> Inr (Str s))
          else Inl KeyError)"

text \<open>
  \<^verbatim>\<open>pd.DataFrame\<close> of an object of objects: one column per outer key (a date), one row
  per inner key (a field), rows in the order of first occurrence (pandas from 0.25 on; for
  the field names of the price service this is also their sorted order).
\<close>

definition frame_index :: "time_series \<Rightarrow> string list" where
  "frame_index ts = uniq (concat (map (\<lambda>(d, r). map fst r) ts))"

text \<open>
  What \<^verbatim>\<open>pd.DataFrame\<close> is built from: the series; nothing for \<^verbatim>\<open>null\<close> or an
  empty list, which give an empty frame; a string, a number or an object of scalars is
  refused.
\<close>

definition DataFrame_stock :: "stock_section \<Rightarrow> exn + time_series" where
  "DataFrame_stock sec =
     (case sec of Series ts \<Rightarrow> Inr ts | StockEmpty \<Rightarrow> Inr [] | StockOther \<Rightarrow> Inl ValueError)"

text \<open>\<^verbatim>\<open>df.iloc[3, :3]\<close>: the row at position 3, cut to the first three columns.\<close>

definition iloc_3_upto_3 :: "time_series \<Rightarrow> exn + (string \<times> string option) list" where
  "iloc_3_upto_3 ts =
     (let idx = frame_index ts
      in if length idx \<le> 3 then Inl IndexError
         else Inr (map (\<lambda>(d, r). (d, map_of r (idx ! 3))) (take 3 ts)))"

text \<open>
  \<^verbatim>\<open>astype(float)\<close>: a missing cell is NaN, a string goes through Python's
  \<^verbatim>\<open>float\<close>, here the parameter \<open>to_float\<close> (\<open>None\<close> where it raises).
\<close>

fun astype_float ::
  "(string \<Rightarrow> float64 option) \<Rightarrow> (string \<times> string option) list \<Rightarrow> exn + (string \<times> float64) list"
where
  "astype_float to_float [] = Inr []"
| "astype_float to_float ((d, c) # xs) =
     (case (case c of None \<Rightarrow> Some NaN | Some s \<Rightarrow> to_float s) of
        None \<Rightarrow> Inl ValueError
      | Some v \<Rightarrow>
          (case astype_float to_float xs of
             Inl e \<Rightarrow> Inl e
           | Inr ys \<Rightarrow> Inr ((d, v) # ys)))"

definition sort_index :: "(string \<times> float64) list \<Rightarrow> (string \<times> float64) list" where
  "sort_index s = sort_key fst s"

text \<open>\<^verbatim>\<open>s[i]\<close> by position.\<close>

definition iat :: "(string \<times> float64) list \<Rightarrow> nat \<Rightarrow> exn + float64" where
  "iat s i = (if i < length s then Inr (snd (s ! i)) else Inl IndexError)"

text \<open>\<^verbatim>\<open>s[s == v].index[0]\<close>: the label of the first entry whose value equals \<open>v\<close>.\<close>

definition first_label_eq :: "(string \<times> float64) list \<Rightarrow> float64 \<Rightarrow> exn + string" where
  "first_label_eq s v =
     (case filter (\<lambda>(d, x). feq x v) s of
        [] \<Rightarrow> Inl IndexError
      | (d, _) # _ \<Rightarrow> Inr d)"

subsection \<open>\<^verbatim>\<open>process_news\<close>\<close>

definition process_news :: "news_json \<Rightarrow> exn + cell" where
  "process_news news_json =
     (case (case map_of news_json ''articles'' of
              None \<Rightarrow> Inl KeyError
            | Some sec \<Rightarrow>
                (case DataFrame_news sec of
                   Inl e \<Rightarrow> Inl e
                 | Inr df \<Rightarrow> loc0 df ''title'')) of
        Inl KeyError \<Rightarrow> Inr (Str ''No articles found!'')
      | r \<Rightarrow> r)"

text \<open>
  Lines 98 and 99, the two calls that fetch and read the headline for one date: the
  request, whose exception propagates, then \<^verbatim>\<open>process_news\<close> on the response.
\<close>

definition fetch_top_headline :: "news_api \<Rightarrow> string \<Rightarrow> string \<Rightarrow> world \<Rightarrow> (exn + cell) \<times> world" where
  "fetch_top_headline api company_name change_date w =
     (case get_news api company_name change_date w of
        (Inl e, w1) \<Rightarrow> (Inl e, w1)
      | (Inr news_response, w1) \<Rightarrow> (process_news news_response, w1))"

subsection \<open>\<^verbatim>\<open>process_stock_prices\<close>\<close>

text \<open>Lines 65 to 76: the three closing prices, as floats, ordered by date.\<close>

definition closing_window ::
  "(string \<Rightarrow> float64 option) \<Rightarrow> time_series \<Rightarrow> exn + (string \<times> float64) list"
where
  "closing_window to_float ts =
     (case iloc_3_upto_3 ts of
        Inl e \<Rightarrow> Inl e
      | Inr df_last_3_days_closing \<Rightarrow>
          (case astype_float to_float df_last_3_days_closing of
             Inl e \<Rightarrow> Inl e
           | Inr fs \<Rightarrow> Inr (sort_index fs)))"

text \<open>
  Lines 79 to 104: the loop over \<^verbatim>\<open>enumerate(df_last_3_days_closing)\<close>. \<open>s\<close> is the
  whole series, \<open>index\<close> the position, the list argument what is left to enumerate.
\<close>

fun changes_loop ::
  "news_api \<Rightarrow> string \<Rightarrow> (string \<times> float64) list \<Rightarrow> nat \<Rightarrow> float64 list \<Rightarrow> report \<Rightarrow> world
     \<Rightarrow> (exn + report) \<times> world"
where
  "changes_loop api company_name s index [] result_df w = (Inr result_df, w)"
| "changes_loop api company_name s index (stock_price # rest) result_df w =
     (let one_percent = fmul stock_price (Fin (fl (1 / 100)))
      in if index \<noteq> length s - 1 then
           (case iat s index of
              Inl e \<Rightarrow> (Inl e, w)
            | Inr a \<Rightarrow>
           (case iat s (index + 1) of
              Inl e \<Rightarrow> (Inl e, w)
            | Inr b \<Rightarrow>
                (let positive_change = fabs (fsub a b)
                 in if fge positive_change one_percent then
                      (case first_label_eq s b of
                         Inl e \<Rightarrow> (Inl e, w)
                       | Inr change_date \<Rightarrow>
                      (case fetch_top_headline api company_name change_date w of
                         (Inl e, w1) \<Rightarrow> (Inl e, w1)
                       | (Inr article_title, w1) \<Rightarrow>
                           changes_loop api company_name s (index + 1) rest
                             (result_df @
                                [\<lparr>company = company_name, date = change_date,
                                  positive_change = round2 positive_change,
                                  title = article_title\<rparr>])
                             w1))
                    else changes_loop api company_name s (index + 1) rest result_df w)))
         else changes_loop api company_name s (index + 1) rest result_df w)"

text \<open>The body of the \<^verbatim>\<open>try\<close>.\<close>

definition process_stock_prices_try ::
  "(string \<Rightarrow> float64 option) \<Rightarrow> news_api \<Rightarrow> string \<Rightarrow> stock_json \<Rightarrow> world
     \<Rightarrow> (exn + report) \<times> world"
where
  "process_stock_prices_try to_float api company_name stock_json w =
     (case map_of stock_json ''Time Series (Daily)'' of
        None \<Rightarrow> (Inl KeyError, w)
      | Some sec \<Rightarrow>
          (case DataFrame_stock sec of
             Inl e \<Rightarrow> (Inl e, w)
           | Inr ts \<Rightarrow>
               (case closing_window to_float ts of
                  Inl e \<Rightarrow> (Inl e, w)
                | Inr s \<Rightarrow> changes_loop api company_name s 0 (map snd s) [] w)))"

text \<open>The handler: a \<^verbatim>\<open>KeyError\<close> from anywhere in the body becomes the typed error.\<close>

definition process_stock_prices ::
  "(string \<Rightarrow> float64 option) \<Rightarrow> news_api \<Rightarrow> string \<Rightarrow> string \<Rightarrow> stock_json \<Rightarrow> world
     \<Rightarrow> (exn + report) \<times> world"
where
  "process_stock_prices to_float api stock_name company_name stock_json w =
     (case process_stock_prices_try to_float api company_name stock_json w of
        (Inl KeyError, w1) \<Rightarrow> (Inl (EmptyResultException ''Stock not found!'' stock_name), w1)
      | r \<Rightarrow> r)"

subsection \<open>The batch loop and the persistence block\<close>

definition log_error :: "exn \<Rightarrow> world \<Rightarrow> world" where
  "log_error ex w = w\<lparr>logged_exceptions := logged_exceptions w @ [ex]\<rparr>"

text \<open>Lines 173 to 184: one company after the other; any exception is logged.\<close>

fun run_batch ::
  "(string \<Rightarrow> float64 option) \<Rightarrow> stock_api \<Rightarrow> news_api \<Rightarrow> (string \<times> string) list \<Rightarrow> report \<Rightarrow> world
     \<Rightarrow> report \<times> world"
where
  "run_batch to_float sapi napi [] res_df w = (res_df, w)"
| "run_batch to_float sapi napi ((key, val) # companies) res_df w =
     (case get_stock_prices sapi key w of
        (Inl ex, w1) \<Rightarrow> run_batch to_float sapi napi companies res_df (log_error ex w1)
      | (Inr stock_json_response, w1) \<Rightarrow>
          (case process_stock_prices to_float napi key val stock_json_response w1 of
             (Inl ex, w2) \<Rightarrow> run_batch to_float sapi napi companies res_df (log_error ex w2)
           | (Inr stock_df, w2) \<Rightarrow>
               run_batch to_float sapi napi companies (res_df @ stock_df) w2))"

text \<open>\<^verbatim>\<open>load_to_db\<close> and \<^verbatim>\<open>read_from_db\<close>: the handler of each re-raises.\<close>

definition load_to_db :: "engine \<Rightarrow> report \<Rightarrow> world \<Rightarrow> (exn + unit) \<times> world" where
  "load_to_db eng df w =
     (let w1 = w\<lparr>to_sql_rows := to_sql_rows w @ [df]\<rparr>
      in case to_sql eng (db_table w1) df of
           Inl e \<Rightarrow> (Inl e, w1)
         | Inr t \<Rightarrow> (Inr (), w1\<lparr>db_table := t\<rparr>))"

definition read_from_db :: "engine \<Rightarrow> world \<Rightarrow> (exn + unit) \<times> world" where
  "read_from_db eng w =
     (case read_sql eng (db_table w) of
        Inl e \<Rightarrow> (Inl e, w)
      | Inr df \<Rightarrow> (Inr (), w\<lparr>out_db_result_csv := Some df\<rparr>))"

text \<open>Lines 188 to 192: both calls in one \<^verbatim>\<open>try\<close>, one handler that logs.\<close>

definition persistence_block :: "engine \<Rightarrow> report \<Rightarrow> world \<Rightarrow> world" where
  "persistence_block eng res_df w =
     (case load_to_db eng res_df w of
        (Inl ex, w1) \<Rightarrow> log_error ex w1
      | (Inr _, w1) \<Rightarrow>
          (case read_from_db eng w1 of
             (Inl ex, w2) \<Rightarrow> log_error ex w2
           | (Inr _, w2) \<Rightarrow> w2))"

text \<open>The module from line 171 on.\<close>

definition main ::
  "(string \<Rightarrow> float64 option) \<Rightarrow> stock_api \<Rightarrow> news_api \<Rightarrow> engine \<Rightarrow> (string \<times> string) list \<Rightarrow> world
     \<Rightarrow> world"
where
  "main to_float sapi napi eng companies w =
     (case run_batch to_float sapi napi companies [] w of
        (res_df, w1) \<Rightarrow> persistence_block eng res_df (w1\<lparr>out_result_csv := Some res_df\<rparr>))"

subsection \<open>Concrete inputs\<close>

text \<open>
  A conversion that knows the strings of the examples (each goes to the binary64 number
  nearest to the decimal), a day's record with a given closing price, the world before
  the run, and the two services.
\<close>

definition ex_to_float :: "string \<Rightarrow> float64 option" where
  "ex_to_float s =
     map_option Fin
       (map_of [(''100.0'', 100), (''102.0'', 102), (''101.5'', 203 / 2), (''1'', 1),
                (''10.0'', 10), (''10.1'', fl (101 / 10))] s)"

definition ex_day :: "string \<Rightarrow> day_record" where
  "ex_day c =
     [(''1. open'', ''1''), (''2. high'', ''1''), (''3. low'', ''1''), (''4. close'', c),
      (''5. volume'', ''1'')]"

definition ex_world :: world where
  "ex_world =
     \<lparr>stock_requests = [], news_requests = [], logged_exceptions = [], out_result_csv = None,
      out_db_result_csv = None, to_sql_rows = [], db_table = []\<rparr>"

text \<open>The news service: one article titled after the date; an HTTP error for \<^verbatim>\<open>Tesla\<close>.\<close>

definition ex_news_api :: news_api where
  "ex_news_api c d =
     (if c = ''Tesla'' then Inl HTTPError
      else Inr [(''status'', NewsOther),
                (''articles'', Articles [[(''title'', Some (''T-'' @ d))]])])"

text \<open>Prices 100, 102, 101.5 on three consecutive days, most recent day first.\<close>

definition ex_series_rise :: time_series where
  "ex_series_rise =
     [(''2024-01-04'', ex_day ''101.5''), (''2024-01-03'', ex_day ''102.0''),
      (''2024-01-02'', ex_day ''100.0''), (''2024-01-01'', ex_day ''1'')]"

text \<open>Prices 100, 102, 100: the first and the last price are equal.\<close>

definition ex_series_peak :: time_series where
  "ex_series_peak =
     [(''2024-01-04'', ex_day ''100.0''), (''2024-01-03'', ex_day ''102.0''),
      (''2024-01-02'', ex_day ''100.0''), (''2024-01-01'', ex_day ''1'')]"

definition ex_stock_api :: stock_api where
  "ex_stock_api k =
     (if k = ''IBM'' then Inr [(''Meta Data'', StockOther), (''Time Series (Daily)'', Series ex_series_rise)]
      else if k = ''TSLA'' then Inr [(''Time Series (Daily)'', Series ex_series_rise)]
      else if k = ''ORCL'' then Inr [(''Time Series (Daily)'', Series ex_series_peak)]
      else if k = ''XYZABS'' then Inr [(''Error Message'', StockOther)]
      else Inl HTTPError)"

definition ex_companies :: "(string \<times> string) list" where
  "ex_companies =
     [(''IBM'', ''Ibm''), (''TSLA'', ''Tesla''), (''ORCL'', ''Oracle''),
      (''XYZABS'', ''blablabla''), (''AMZN'', ''Amazon'')]"

text \<open>An engine that works, and one whose every call raises.\<close>

definition ex_engine :: engine where
  "ex_engine =
     \<lparr>to_sql = (\<lambda>t rows. Inr (t @ rows)),
      read_sql = (\<lambda>t. Inr (filter (\<lambda>r. company r = ''Oracle'') t))\<rparr>"

definition ex_engine_down :: engine where
  "ex_engine_down =
     \<lparr>to_sql = (\<lambda>t rows. Inl (OtherException ''connection refused'')),
      read_sql = (\<lambda>t. Inl (OtherException ''connection refused''))\<rparr>"

text \<open>Prices 10.0, 10.1, 10.1: the first change is a tenth in decimal.\<close>

definition ex_series_tenth :: time_series where
  "ex_series_tenth =
     [(''2024-01-04'', ex_day ''10.1''), (''2024-01-03'', ex_day ''10.1''),
      (''2024-01-02'', ex_day ''10.0''), (''2024-01-01'', ex_day ''1'')]"

text \<open>A response whose \<^verbatim>\<open>articles\<close> is a string.\<close>

definition ex_news_articles_text :: news_json where
  "ex_news_articles_text = [(''status'', NewsOther), (''articles'', NewsOther)]"

definition ex_news_api_text :: news_api where
  "ex_news_api_text c d = Inr ex_news_articles_text"

text \<open>Two articles, of which only the second has a title.\<close>

definition ex_news_untitled_first :: news_json where
  "ex_news_untitled_first =
     [(''articles'', Articles [[(''description'', Some ''d'')], [(''title'', Some ''t'')]])]"

section \<open>Properties\<close>

subsection \<open>Headlines\<close>

lemma set_uniq: "set (uniq xs) = set xs"
  by (induction xs) auto

lemma frame_columns_iff:
  "col \<in> set (frame_columns rows) \<longleftrightarrow> (\<exists>r \<in> set rows. col \<in> fst ` set r)"
  by (auto simp: frame_columns_def set_uniq)

lemma no_title_column:
  "(\<forall>r \<in> set rows. map_of r col = None) \<Longrightarrow> col \<notin> set (frame_columns rows)"
  by (auto simp: frame_columns_iff map_of_eq_None_iff)

lemma fetch_top_headline_eq:
  "fetch_top_headline api c d w =
     (case api c d of Inl e \<Rightarrow> Inl e | Inr nj \<Rightarrow> process_news nj,
      w\<lparr>news_requests := news_requests w @ [(c, d)]\<rparr>)"
  by (simp add: fetch_top_headline_def get_news_def split: sum.splits)

text \<open>
  C5, as the claim states it, fails: the request succeeds, the value under
  \<^verbatim>\<open>articles\<close> is a string, \<^verbatim>\<open>pd.DataFrame\<close> refuses it, and the
  \<^verbatim>\<open>ValueError\<close> leaves \<^verbatim>\<open>process_news\<close>, whose handler catches
  \<^verbatim>\<open>KeyError\<close> only.
\<close>

theorem fetch_top_headline_value_error_counterexample:
  "ex_news_api_text ''Ibm'' ''2024-01-03'' = Inr ex_news_articles_text
   \<and> fst (fetch_top_headline ex_news_api_text ''Ibm'' ''2024-01-03'' ex_world) = Inl ValueError"
  by (simp add: fetch_top_headline_eq ex_news_api_text_def ex_news_articles_text_def
        process_news_def DataFrame_news_def)

text \<open>
  C5, amended. When the request succeeds and the response holds an empty list of
  articles, the headline is the string \<^verbatim>\<open>No articles found!\<close>, and nothing is
  raised. An exception of the headline is the exception of the request itself, or the
  \<^verbatim>\<open>ValueError\<close> of a payload whose \<^verbatim>\<open>articles\<close> is neither a list nor
  \<^verbatim>\<open>null\<close>.
\<close>

theorem fetch_top_headline_no_articles:
  "(\<forall>news_json. api company_name change_date = Inr news_json
        \<and> map_of news_json ''articles'' = Some (Articles []) \<longrightarrow>
      fst (fetch_top_headline api company_name change_date w) = Inr (Str ''No articles found!''))
   \<and> (\<forall>e. fst (fetch_top_headline api company_name change_date w) = Inl e \<longrightarrow>
        api company_name change_date = Inl e
        \<or> e = ValueError
          \<and> (\<exists>news_json. api company_name change_date = Inr news_json
                \<and> map_of news_json ''articles'' = Some NewsOther))"
  by (auto simp: fetch_top_headline_eq process_news_def DataFrame_news_def loc0_def
        split: sum.splits option.splits news_section.splits list.splits if_splits exn.splits)

theorem fetch_top_headline_no_articles_witness:
  "fst (fetch_top_headline (\<lambda>c d. Inr [(''status'', NewsOther), (''articles'', Articles [])])
          ''Ibm'' ''2024-01-03'' ex_world)
     = Inr (Str ''No articles found!'')
   \<and> fst (fetch_top_headline ex_news_api ''Tesla'' ''2024-01-03'' ex_world) = Inl HTTPError
   \<and> ex_news_api ''Tesla'' ''2024-01-03'' = Inl HTTPError"
proof -
  have raised: "fst (fetch_top_headline ex_news_api ''Tesla'' ''2024-01-03'' ex_world) = Inl HTTPError"
    by (simp add: fetch_top_headline_eq ex_news_api_def)
  have "fst (fetch_top_headline (\<lambda>c d. Inr [(''status'', NewsOther), (''articles'', Articles [])])
          ''Ibm'' ''2024-01-03'' ex_world)
     = Inr (Str ''No articles found!'')"
    using fetch_top_headline_no_articles
      [of "\<lambda>c d. Inr [(''status'', NewsOther), (''articles'', Articles [])]" "''Ibm''"
          "''2024-01-03''" ex_world]
    by simp
  moreover have "ex_news_api ''Tesla'' ''2024-01-03'' = Inl HTTPError"
    using fetch_top_headline_no_articles [of ex_news_api "''Tesla''" "''2024-01-03''" ex_world] raised
    by auto
  ultimately show ?thesis using raised by blast
qed

text \<open>
  C10, as the claim states it, fails: the first article has no title, the second has
  one, so the column exists and the cell of the first row is the missing value.
\<close>

theorem process_news_untitled_first_counterexample:
  "map_of (hd [[(''description'', Some ''d'')], [(''title'', Some ''t'')]]) ''title'' = None
   \<and> map_of ex_news_untitled_first ''articles''
       = Some (Articles [[(''description'', Some ''d'')], [(''title'', Some ''t'')]])
   \<and> process_news ex_news_untitled_first = Inr Missing"
  by (simp add: process_news_def ex_news_untitled_first_def DataFrame_news_def loc0_def
        frame_columns_def)

text \<open>
  C10, amended. When the response has no key \<^verbatim>\<open>articles\<close>, or its list of articles
  is not empty and no article in it has a field \<^verbatim>\<open>title\<close>, the headline is the string
  \<^verbatim>\<open>No articles found!\<close>.
\<close>

theorem process_news_no_title_anywhere:
  assumes "map_of news_json ''articles'' = None
      \<or> (\<exists>rows. map_of news_json ''articles'' = Some (Articles rows) \<and> rows \<noteq> []
            \<and> (\<forall>r \<in> set rows. map_of r ''title'' = None))"
  shows "process_news news_json = Inr (Str ''No articles found!'')"
  using assms
proof (elim disjE exE conjE)
  assume "map_of news_json ''articles'' = None"
  then show ?thesis by (simp add: process_news_def)
next
  fix rows
  assume a: "map_of news_json ''articles'' = Some (Articles rows)" and "rows \<noteq> []"
    and "\<forall>r \<in> set rows. map_of r ''title'' = None"
  then have "''title'' \<notin> set (frame_columns rows)" by (simp add: no_title_column)
  then have "loc0 rows ''title'' = Inl KeyError"
    by (cases rows) (simp_all add: loc0_def)
  with a show ?thesis by (simp add: process_news_def DataFrame_news_def)
qed

theorem process_news_no_title_anywhere_witness:
  "process_news [(''status'', NewsOther)] = Inr (Str ''No articles found!'')
   \<and> process_news [(''articles'', Articles [[(''description'', Some ''d'')]])]
       = Inr (Str ''No articles found!'')"
  using process_news_no_title_anywhere [of "[(''status'', NewsOther)]"]
    process_news_no_title_anywhere [of "[(''articles'', Articles [[(''description'', Some ''d'')]])]"]
  by simp

subsection \<open>What a company's processing does to the world\<close>

lemma world_same: "\<exists>reqs. w = w\<lparr>news_requests := news_requests w @ reqs\<rparr>"
  by (rule exI [of _ "[]"]) simp

text \<open>The loop only adds news requests.\<close>

lemma changes_loop_world:
  "\<exists>reqs. snd (changes_loop api cn s i xs acc w) = w\<lparr>news_requests := news_requests w @ reqs\<rparr>"
proof (induction xs arbitrary: i acc w)
  case Nil
  show ?case by (simp add: world_same)
next
  case (Cons x xs)
  have step: "\<exists>reqs. snd (changes_loop api cn s (i + 1) xs acc' (w\<lparr>news_requests := news_requests w @ q\<rparr>))
                 = w\<lparr>news_requests := news_requests w @ reqs\<rparr>" for acc' q
  proof -
    obtain reqs where
      "snd (changes_loop api cn s (i + 1) xs acc' (w\<lparr>news_requests := news_requests w @ q\<rparr>))
         = (w\<lparr>news_requests := news_requests w @ q\<rparr>)
             \<lparr>news_requests := news_requests (w\<lparr>news_requests := news_requests w @ q\<rparr>) @ reqs\<rparr>"
      using Cons.IH by blast
    then have "snd (changes_loop api cn s (i + 1) xs acc' (w\<lparr>news_requests := news_requests w @ q\<rparr>))
         = w\<lparr>news_requests := news_requests w @ (q @ reqs)\<rparr>" by simp
    then show ?thesis by blast
  qed
  have one: "\<exists>reqs. w\<lparr>news_requests := news_requests w @ q\<rparr> = w\<lparr>news_requests := news_requests w @ reqs\<rparr>" for q
    by blast
  show ?case
    using step [of _ "[]"] step world_same [of w] one
    by (auto simp: Let_def fetch_top_headline_eq split: sum.splits)
qed

lemma process_stock_prices_world:
  "\<exists>reqs. snd (process_stock_prices tf api sn cn sj w) = w\<lparr>news_requests := news_requests w @ reqs\<rparr>"
proof -
  have "\<exists>reqs. snd (process_stock_prices_try tf api cn sj w) = w\<lparr>news_requests := news_requests w @ reqs\<rparr>"
    using world_same [of w] changes_loop_world
    by (auto simp: process_stock_prices_try_def DataFrame_stock_def split: option.splits stock_section.splits sum.splits)
  then show ?thesis
    by (auto simp: process_stock_prices_def split: prod.splits sum.splits exn.splits)
qed

text \<open>What the loop returns does not depend on the world it starts in.\<close>

lemma changes_loop_fst_world:
  "fst (changes_loop api cn s i xs acc w) = fst (changes_loop api cn s i xs acc w')"
proof (induction xs arbitrary: i acc w w')
  case Nil
  show ?case by simp
next
  case (Cons x xs)
  show ?case
    by (auto simp: Let_def fetch_top_headline_eq split: sum.splits intro: Cons.IH)
qed

lemma process_stock_prices_fst_world:
  "fst (process_stock_prices tf api sn cn sj w) = fst (process_stock_prices tf api sn cn sj w')"
proof -
  have "fst (process_stock_prices_try tf api cn sj w) = fst (process_stock_prices_try tf api cn sj w')"
    by (auto simp: process_stock_prices_try_def DataFrame_stock_def split: option.splits stock_section.splits sum.splits
          intro: changes_loop_fst_world)
  then show ?thesis
    by (auto simp: process_stock_prices_def split: prod.splits sum.splits exn.splits)
qed

subsection \<open>The typed error\<close>

text \<open>
  C3, as the claim states it, fails: a series with no record at all is under the expected
  key, and the exception is the \<^verbatim>\<open>IndexError\<close> of \<^verbatim>\<open>iloc\<close>, which the handler
  does not catch.
\<close>

theorem process_stock_prices_empty_series_counterexample:
  "fst (process_stock_prices ex_to_float ex_news_api ''XYZABS'' ''blablabla''
          [(''Time Series (Daily)'', Series [])] ex_world) = Inl IndexError"
  by (simp add: process_stock_prices_def process_stock_prices_try_def DataFrame_stock_def
        closing_window_def iloc_3_upto_3_def frame_index_def)

text \<open>
  C3, amended. When the response has no key \<^verbatim>\<open>Time Series (Daily)\<close>, the exception
  is \<^verbatim>\<open>EmptyResultException\<close> with the message \<^verbatim>\<open>Stock not found!\<close> and the ticker
  symbol. When the key is there and the frame has fewer than four rows, the exception
  is \<^verbatim>\<open>IndexError\<close>.
\<close>

theorem process_stock_prices_stock_not_found:
  "(map_of stock_json ''Time Series (Daily)'' = None \<longrightarrow>
      process_stock_prices to_float api stock_name company_name stock_json w
        = (Inl (EmptyResultException ''Stock not found!'' stock_name), w))
   \<and> (\<forall>ts. map_of stock_json ''Time Series (Daily)'' = Some (Series ts)
            \<and> length (frame_index ts) < 4 \<longrightarrow>
      process_stock_prices to_float api stock_name company_name stock_json w = (Inl IndexError, w))"
  by (auto simp: process_stock_prices_def process_stock_prices_try_def DataFrame_stock_def
        closing_window_def iloc_3_upto_3_def)

theorem process_stock_prices_stock_not_found_witness:
  "process_stock_prices ex_to_float ex_news_api ''XYZABS'' ''blablabla''
       [(''Error Message'', StockOther)] ex_world
     = (Inl (EmptyResultException ''Stock not found!'' ''XYZABS''), ex_world)
   \<and> process_stock_prices ex_to_float ex_news_api ''XYZABS'' ''blablabla''
       [(''Time Series (Daily)'', Series [(''2024-01-04'', [(''1. open'', ''1'')])])] ex_world
     = (Inl IndexError, ex_world)"
  using process_stock_prices_stock_not_found
      [of "[(''Error Message'', StockOther)]" ex_to_float ex_news_api "''XYZABS''"
          "''blablabla''" ex_world]
    process_stock_prices_stock_not_found
      [of "[(''Time Series (Daily)'', Series [(''2024-01-04'', [(''1. open'', ''1'')])])]"
          ex_to_float ex_news_api "''XYZABS''" "''blablabla''" ex_world]
  by (simp add: frame_index_def)

text \<open>
  The value \<^verbatim>\<open>null\<close> or an empty list under the key gives an empty frame, and the
  positional read raises \<^verbatim>\<open>IndexError\<close> as well.
\<close>

lemma process_stock_prices_empty_value:
  "map_of stock_json ''Time Series (Daily)'' = Some StockEmpty \<Longrightarrow>
     process_stock_prices to_float api stock_name company_name stock_json w = (Inl IndexError, w)"
  by (simp add: process_stock_prices_def process_stock_prices_try_def DataFrame_stock_def
        closing_window_def iloc_3_upto_3_def frame_index_def)

subsection \<open>The batch\<close>

lemma run_batch_result:
  "fst (run_batch tf sapi napi companies res_df w) =
     res_df @ concat (map (\<lambda>(key, val).
        case sapi key of
          Inl ex \<Rightarrow> []
        | Inr sj \<Rightarrow> (case fst (process_stock_prices tf napi key val sj w0) of
                       Inl ex \<Rightarrow> [] | Inr stock_df \<Rightarrow> stock_df)) companies)"
proof (induction companies arbitrary: res_df w)
  case Nil
  show ?case by simp
next
  case (Cons c companies)
  obtain key val where c: "c = (key, val)" by (cases c)
  show ?case
  proof (cases "sapi key")
    case (Inl ex)
    then show ?thesis by (simp add: c get_stock_prices_def Cons.IH)
  next
    case (Inr sj)
    let ?w1 = "w\<lparr>stock_requests := stock_requests w @ [key]\<rparr>"
    obtain r w2 where p: "process_stock_prices tf napi key val sj ?w1 = (r, w2)"
      by (cases "process_stock_prices tf napi key val sj ?w1")
    then have r: "fst (process_stock_prices tf napi key val sj w0) = r"
      using process_stock_prices_fst_world [of tf napi key val sj w0 ?w1] by simp
    show ?thesis
      by (cases r) (simp_all add: c Inr get_stock_prices_def p r Cons.IH)
  qed
qed

lemma run_batch_world:
  "\<exists>reqs. snd (run_batch tf sapi napi companies res_df w) =
     w\<lparr>stock_requests := stock_requests w @ map fst companies,
       news_requests := news_requests w @ reqs,
       logged_exceptions := logged_exceptions w @ concat (map (\<lambda>(key, val).
          case sapi key of
            Inl ex \<Rightarrow> [ex]
          | Inr sj \<Rightarrow> (case fst (process_stock_prices tf napi key val sj w0) of
                         Inl ex \<Rightarrow> [ex] | Inr stock_df \<Rightarrow> [])) companies)\<rparr>"
proof (induction companies arbitrary: res_df w)
  case Nil
  show ?case by (rule exI [of _ "[]"]) simp
next
  case (Cons c companies)
  obtain key val where c: "c = (key, val)" by (cases c)
  let ?errs = "concat (map (\<lambda>(key, val).
          case sapi key of
            Inl ex \<Rightarrow> [ex]
          | Inr sj \<Rightarrow> (case fst (process_stock_prices tf napi key val sj w0) of
                         Inl ex \<Rightarrow> [ex] | Inr stock_df \<Rightarrow> [])) companies)"
  let ?w1 = "w\<lparr>stock_requests := stock_requests w @ [key]\<rparr>"
  have tail: "\<exists>reqs. snd (run_batch tf sapi napi companies df
                 (w\<lparr>stock_requests := stock_requests w @ [key],
                    news_requests := news_requests w @ q,
                    logged_exceptions := logged_exceptions w @ es\<rparr>)) =
     w\<lparr>stock_requests := stock_requests w @ key # map fst companies,
       news_requests := news_requests w @ reqs,
       logged_exceptions := logged_exceptions w @ es @ ?errs\<rparr>" for df q es
  proof -
    obtain reqs where "snd (run_batch tf sapi napi companies df
                 (w\<lparr>stock_requests := stock_requests w @ [key],
                    news_requests := news_requests w @ q,
                    logged_exceptions := logged_exceptions w @ es\<rparr>)) =
       w\<lparr>stock_requests := stock_requests w @ key # map fst companies,
         news_requests := news_requests w @ q @ reqs,
         logged_exceptions := logged_exceptions w @ es @ ?errs\<rparr>"
      using Cons.IH [of df "w\<lparr>stock_requests := stock_requests w @ [key],
                    news_requests := news_requests w @ q,
                    logged_exceptions := logged_exceptions w @ es\<rparr>"] by auto
    then show ?thesis by blast
  qed
  show ?case
  proof (cases "sapi key")
    case (Inl ex)
    then show ?thesis using tail [where df = res_df and q = "[]" and es = "[ex]"]
      by (simp add: c get_stock_prices_def log_error_def)
  next
    case (Inr sj)
    obtain r w2 where p: "process_stock_prices tf napi key val sj ?w1 = (r, w2)"
      by (cases "process_stock_prices tf napi key val sj ?w1")
    then have r: "fst (process_stock_prices tf napi key val sj w0) = r"
      using process_stock_prices_fst_world [of tf napi key val sj w0 ?w1] by simp
    obtain q where w2: "w2 = ?w1\<lparr>news_requests := news_requests ?w1 @ q\<rparr>"
      using process_stock_prices_world [of tf napi key val sj ?w1] p by auto
    show ?thesis
    proof (cases r)
      case (Inl ex)
      then show ?thesis using tail [where df = res_df and q = q and es = "[ex]"]
        by (simp add: c \<open>sapi key = Inr sj\<close> get_stock_prices_def p r w2 log_error_def)
    next
      case (Inr stock_df)
      then show ?thesis using tail [where df = "res_df @ stock_df" and q = q and es = "[]"]
        by (simp add: c \<open>sapi key = Inr sj\<close> get_stock_prices_def p r w2)
    qed
  qed
qed

text \<open>
  C4. The report of the batch is the concatenation, in the order of the company list, of
  the frames of the companies whose request and processing raised nothing; a company that
  raised contributes no row and one line of the error log; every company of the list is
  requested, whatever happened to the ones before it.
\<close>

theorem run_batch_skips_failures:
  "fst (run_batch to_float sapi napi companies [] w) =
     concat (map (\<lambda>(key, val).
        case sapi key of
          Inl ex \<Rightarrow> []
        | Inr sj \<Rightarrow> (case fst (process_stock_prices to_float napi key val sj w0) of
                       Inl ex \<Rightarrow> [] | Inr stock_df \<Rightarrow> stock_df)) companies)
   \<and> logged_exceptions (snd (run_batch to_float sapi napi companies [] w)) =
     logged_exceptions w @ concat (map (\<lambda>(key, val).
        case sapi key of
          Inl ex \<Rightarrow> [ex]
        | Inr sj \<Rightarrow> (case fst (process_stock_prices to_float napi key val sj w0) of
                       Inl ex \<Rightarrow> [ex] | Inr stock_df \<Rightarrow> [])) companies)
   \<and> stock_requests (snd (run_batch to_float sapi napi companies [] w)) =
     stock_requests w @ map fst companies"
proof -
  obtain reqs where "snd (run_batch to_float sapi napi companies [] w) =
     w\<lparr>stock_requests := stock_requests w @ map fst companies,
       news_requests := news_requests w @ reqs,
       logged_exceptions := logged_exceptions w @ concat (map (\<lambda>(key, val).
          case sapi key of
            Inl ex \<Rightarrow> [ex]
          | Inr sj \<Rightarrow> (case fst (process_stock_prices to_float napi key val sj w0) of
                         Inl ex \<Rightarrow> [ex] | Inr stock_df \<Rightarrow> [])) companies)\<rparr>"
    using run_batch_world [of to_float sapi napi companies "[]" w w0] by blast
  then show ?thesis
    using run_batch_result [of to_float sapi napi companies "[]" w w0] by simp
qed

theorem run_batch_skips_failures_witness:
  "fst (run_batch ex_to_float ex_stock_api ex_news_api ex_companies [] ex_world)
     = [\<lparr>company = ''Ibm'', date = ''2024-01-03'', positive_change = Fin 2,
          title = Str ''T-2024-01-03''\<rparr>,
        \<lparr>company = ''Oracle'', date = ''2024-01-03'', positive_change = Fin 2,
          title = Str ''T-2024-01-03''\<rparr>,
        \<lparr>company = ''Oracle'', date = ''2024-01-02'', positive_change = Fin 2,
          title = Str ''T-2024-01-02''\<rparr>]
   \<and> logged_exceptions (snd (run_batch ex_to_float ex_stock_api ex_news_api ex_companies [] ex_world))
     = [HTTPError, EmptyResultException ''Stock not found!'' ''XYZABS'', HTTPError]
   \<and> stock_requests (snd (run_batch ex_to_float ex_stock_api ex_news_api ex_companies [] ex_world))
     = [''IBM'', ''TSLA'', ''ORCL'', ''XYZABS'', ''AMZN'']"
proof -
  have rows: "concat (map (\<lambda>(key, val).
        case ex_stock_api key of
          Inl ex \<Rightarrow> []
        | Inr sj \<Rightarrow> (case fst (process_stock_prices ex_to_float ex_news_api key val sj ex_world) of
                       Inl ex \<Rightarrow> [] | Inr stock_df \<Rightarrow> stock_df)) ex_companies)
     = [\<lparr>company = ''Ibm'', date = ''2024-01-03'', positive_change = Fin 2,
          title = Str ''T-2024-01-03''\<rparr>,
        \<lparr>company = ''Oracle'', date = ''2024-01-03'', positive_change = Fin 2,
          title = Str ''T-2024-01-03''\<rparr>,
        \<lparr>company = ''Oracle'', date = ''2024-01-02'', positive_change = Fin 2,
          title = Str ''T-2024-01-02''\<rparr>]"
    by code_simp
  have errs: "concat (map (\<lambda>(key, val).
        case ex_stock_api key of
          Inl ex \<Rightarrow> [ex]
        | Inr sj \<Rightarrow> (case fst (process_stock_prices ex_to_float ex_news_api key val sj ex_world) of
                       Inl ex \<Rightarrow> [ex] | Inr stock_df \<Rightarrow> [])) ex_companies)
     = [HTTPError, EmptyResultException ''Stock not found!'' ''XYZABS'', HTTPError]"
    by code_simp
  show ?thesis
    using run_batch_skips_failures
      [of ex_to_float ex_stock_api ex_news_api ex_companies ex_world ex_world]
    by (simp only: rows errs) (simp add: ex_world_def ex_companies_def)
qed

subsection \<open>Persistence\<close>

text \<open>
  C6, as the claim states it, fails: when the engine raises, \<^verbatim>\<open>load_to_db\<close> passes
  the exception on to its caller.
\<close>

theorem load_to_db_propagates_counterexample:
  "fst (load_to_db ex_engine_down [] ex_world) = Inl (OtherException ''connection refused'')"
  by (simp add: load_to_db_def ex_engine_down_def)

text \<open>
  C6, amended. \<^verbatim>\<open>load_to_db\<close> and \<^verbatim>\<open>read_from_db\<close> pass an exception of the
  engine on to their caller. The block that calls them logs the first such exception and
  raises nothing; when \<^verbatim>\<open>load_to_db\<close> raises, \<^verbatim>\<open>read_from_db\<close> is not run, so
  the second file is not written. In every case the first file, written before the block,
  is unchanged.
\<close>

theorem persistence_block_logs_first_failure:
  "fst (load_to_db eng res_df w) =
     (case to_sql eng (db_table w) res_df of Inl e \<Rightarrow> Inl e | Inr t \<Rightarrow> Inr ())
   \<and> fst (read_from_db eng w) =
     (case read_sql eng (db_table w) of Inl e \<Rightarrow> Inl e | Inr df \<Rightarrow> Inr ())
   \<and> logged_exceptions (persistence_block eng res_df w) =
     logged_exceptions w @
       (case to_sql eng (db_table w) res_df of
          Inl e \<Rightarrow> [e]
        | Inr t \<Rightarrow> (case read_sql eng t of Inl e \<Rightarrow> [e] | Inr df \<Rightarrow> []))
   \<and> out_db_result_csv (persistence_block eng res_df w) =
       (case to_sql eng (db_table w) res_df of
          Inl e \<Rightarrow> out_db_result_csv w
        | Inr t \<Rightarrow> (case read_sql eng t of Inl e \<Rightarrow> out_db_result_csv w | Inr df \<Rightarrow> Some df))
   \<and> out_result_csv (persistence_block eng res_df w) = out_result_csv w"
  by (auto simp: persistence_block_def load_to_db_def read_from_db_def log_error_def Let_def
        split: sum.splits)

theorem persistence_block_logs_first_failure_witness:
  "logged_exceptions (persistence_block ex_engine_down [] (ex_world\<lparr>out_result_csv := Some []\<rparr>))
     = [OtherException ''connection refused'']
   \<and> out_db_result_csv (persistence_block ex_engine_down [] (ex_world\<lparr>out_result_csv := Some []\<rparr>))
     = None
   \<and> out_result_csv (persistence_block ex_engine_down [] (ex_world\<lparr>out_result_csv := Some []\<rparr>))
     = Some []"
  using persistence_block_logs_first_failure
    [of ex_engine_down "[]" "ex_world\<lparr>out_result_csv := Some []\<rparr>"]
  by (simp add: ex_engine_down_def ex_world_def)

subsection \<open>The rounded change\<close>

lemma rint_nonneg: "0 \<le> x \<Longrightarrow> 0 \<le> rint x"
  by (auto simp: rint_def Let_def)

lemma rint_close: "\<bar>of_int (rint x) - x\<bar> \<le> 1 / 2"
proof -
  have "of_int \<lfloor>x\<rfloor> \<le> x" "x < of_int \<lfloor>x\<rfloor> + 1" by linarith+
  then show ?thesis by (auto simp: rint_def Let_def)
qed

lemma fl_nonneg: "0 \<le> x \<Longrightarrow> 0 \<le> fl x"
  by (auto simp: fl_def Let_def rint_nonneg sgn_if intro!: mult_nonneg_nonneg)

text \<open>Rounding to binary64 moves a number by at most half the spacing.\<close>

lemma fl_error: "\<bar>fl x - x\<bar> \<le> 2 powi (ulp_exp x) / 2"
proof (cases "x = 0")
  case True
  then show ?thesis by (simp add: fl_def)
next
  case False
  define e where "e = ulp_exp x"
  define z where "z = \<bar>x\<bar> / 2 powi e"
  have p: "(0::rat) < 2 powi e" by simp
  have x: "x = sgn x * z * 2 powi e" using p by (simp add: z_def sgn_if)
  have "fl x = sgn x * of_int (rint z) * 2 powi e"
    using False by (simp add: fl_def e_def z_def Let_def)
  then have "fl x - x = sgn x * (of_int (rint z) - z) * 2 powi e"
    using x by (simp add: algebra_simps)
  then have "\<bar>fl x - x\<bar> = \<bar>of_int (rint z) - z\<bar> * 2 powi e"
    using False by (simp add: abs_mult abs_sgn_eq)
  also have "\<dots> \<le> 1 / 2 * 2 powi e"
    using rint_close [of z] p by (intro mult_right_mono) auto
  finally show ?thesis by (simp add: e_def)
qed

lemma floor_log2_le:
  assumes "0 < x"
  shows "2 powi (floor_log2 x) \<le> x"
proof (cases "1 \<le> x")
  case True
  define n where "n = \<lfloor>x\<rfloor>"
  have n: "0 < n" using True by (simp add: n_def)
  have b: "1 \<le> bitlen n" using n by (auto simp: bitlen_alt_def)
  have "2 ^ nat (bitlen n - 1) \<le> n" using bitlen_bounds [OF n] by simp
  then have "(2::rat) ^ nat (bitlen n - 1) \<le> of_int n"
    by (metis of_int_le_iff of_int_numeral of_int_power)
  also have "\<dots> \<le> x" by (simp add: n_def)
  finally show ?thesis using True b by (simp add: floor_log2_def n_def power_int_def)
next
  case False
  define y where "y = 1 / x"
  define m where "m = \<lceil>y\<rceil> - 1"
  have y: "1 < y" using False assms by (simp add: y_def)
  then have m: "0 < m" by (simp add: m_def)
  have ym: "y \<le> of_int m + 1" by (simp add: m_def)
  have "m < 2 ^ nat (bitlen m)" using bitlen_bounds [OF m] by simp
  then have "m + 1 \<le> 2 ^ nat (bitlen m)" by simp
  then have "of_int (m + 1) \<le> (2::rat) ^ nat (bitlen m)"
    by (metis of_int_le_iff of_int_numeral of_int_power)
  with ym have "y \<le> 2 ^ nat (bitlen m)" by simp
  then have "1 / 2 ^ nat (bitlen m) \<le> 1 / y"
    using y by (intro divide_left_mono) auto
  then have "1 / 2 ^ nat (bitlen m) \<le> x" by (simp add: y_def)
  moreover have "floor_log2 x = - bitlen m" using False by (simp add: floor_log2_def m_def y_def)
  moreover have "1 \<le> bitlen m" using m by (auto simp: bitlen_alt_def)
  ultimately show ?thesis by (simp add: power_int_def inverse_eq_divide power_one_over)
qed

lemma ulp_bound:
  assumes "x \<noteq> 0"
  shows "2 powi (ulp_exp x) \<le> \<bar>x\<bar> / 2 ^ 52 + 2 powi (- 1074)"
proof (cases "floor_log2 \<bar>x\<bar> - 52 \<le> - 1074")
  case True
  then have "ulp_exp x = - 1074" by (simp add: ulp_exp_def)
  then show ?thesis by simp
next
  case False
  then have "ulp_exp x = floor_log2 \<bar>x\<bar> - 52" by (simp add: ulp_exp_def)
  then have "2 powi (ulp_exp x) = 2 powi (floor_log2 \<bar>x\<bar>) / (2::rat) ^ 52"
    by (simp add: power_int_diff)
  also have "\<dots> \<le> \<bar>x\<bar> / 2 ^ 52"
    using floor_log2_le [of "\<bar>x\<bar>"] assms by (simp add: divide_right_mono)
  finally have "2 powi (ulp_exp x) \<le> \<bar>x\<bar> / 2 ^ 52" .
  moreover have "(0::rat) \<le> 2 powi (- 1074)" by simp
  ultimately show ?thesis by linarith
qed

text \<open>
  The relative error of rounding to binary64 is at most \<open>2\<^sup>-\<^sup>5\<^sup>3\<close>, up to half the
  subnormal spacing.
\<close>

lemma fl_rel_error: "\<bar>fl x - x\<bar> \<le> \<bar>x\<bar> / 2 ^ 53 + 2 powi (- 1075)"
proof (cases "x = 0")
  case True
  then show ?thesis by (simp add: fl_def)
next
  case False
  have h: "(2::rat) powi (- 1075) = 2 powi (- 1074) / 2"
    by (simp add: power_int_diff [of 2 "- 1074" 1, simplified])
  have "\<bar>fl x - x\<bar> \<le> 2 powi (ulp_exp x) / 2" by (rule fl_error)
  also have "\<dots> \<le> (\<bar>x\<bar> / 2 ^ 52 + 2 powi (- 1074)) / 2"
    using ulp_bound [OF False] by simp
  also have "\<dots> = \<bar>x\<bar> / 2 ^ 53 + 2 powi (- 1075)"
    by (simp add: h add_divide_distrib)
  finally show ?thesis .
qed

text \<open>
  What \<^verbatim>\<open>round(x, 2)\<close> returns for a non-negative \<open>x\<close>: the binary64 number nearest to a
  non-negative hundredth, and that hundredth is within half a hundredth of \<open>x\<close>, up to the
  rounding error of the product with 100.
\<close>

lemma round2_pin:
  assumes "0 \<le> x"
  shows "\<exists>k::int. 0 \<le> k \<and> round2 (Fin x) = Fin (fl (of_int k / 100))
           \<and> \<bar>of_int k / 100 - x\<bar> \<le> 1 / 200 + x / 2 ^ 53 + 2 powi (- 1075)"
proof -
  define k where "k = rint (fl (x * 100))"
  have k0: "0 \<le> k" unfolding k_def using assms by (intro rint_nonneg fl_nonneg) simp
  have r: "round2 (Fin x) = Fin (fl (of_int k / 100))" by (simp add: k_def)
  have a: "\<bar>of_int k - fl (x * 100)\<bar> \<le> 1 / 2" unfolding k_def by (rule rint_close)
  have "\<bar>fl (x * 100) - x * 100\<bar> \<le> \<bar>x * 100\<bar> / 2 ^ 53 + 2 powi (- 1075)" by (rule fl_rel_error)
  then have b: "\<bar>fl (x * 100) - x * 100\<bar> \<le> x * 100 / 2 ^ 53 + 2 powi (- 1075)"
    using assms by (simp add: abs_mult)
  have e: "(0::rat) \<le> 2 powi (- 1075)" by simp
  have "\<bar>of_int k - x * 100\<bar> \<le> 1 / 2 + x * 100 / 2 ^ 53 + 2 powi (- 1075)"
    using a b by linarith
  then have "\<bar>of_int k - x * 100\<bar> / 100 \<le> (1 / 2 + x * 100 / 2 ^ 53 + 2 powi (- 1075)) / 100"
    by (rule divide_right_mono) simp
  moreover have "\<bar>of_int k - x * 100\<bar> / 100 = \<bar>of_int k / 100 - x\<bar>"
  proof -
    have "of_int k / 100 - x = (of_int k - x * 100) / 100" by (simp add: diff_divide_distrib)
    then show ?thesis by (simp only: abs_divide)
  qed
  moreover have "(1 / 2 + x * 100 / 2 ^ 53 + 2 powi (- 1075)) / 100
      = 1 / 200 + x / 2 ^ 53 + 2 powi (- 1075) / 100"
    by (simp add: add_divide_distrib)
  moreover have "2 powi (- 1075) / 100 \<le> (2::rat) powi (- 1075)"
    using e by linarith
  ultimately have "\<bar>of_int k / 100 - x\<bar> \<le> 1 / 200 + x / 2 ^ 53 + 2 powi (- 1075)"
    by linarith
  with k0 r show ?thesis by blast
qed

lemma round2_change:
  assumes "fge (fabs (fsub a b)) t"
  shows "\<exists>k::int. 0 \<le> k \<and> round2 (fabs (fsub a b)) = Fin (fl (of_int k / 100))"
proof (cases a)
  case (Fin x)
  note a = this
  show ?thesis
  proof (cases b)
    case (Fin y)
    have "0 \<le> \<bar>fl (x - y)\<bar>" by simp
    from round2_pin [OF this] show ?thesis using a Fin by auto
  next
    case NaN
    with assms a show ?thesis by simp
  qed
next
  case NaN
  with assms show ?thesis by simp
qed

lemma changes_loop_two_places:
  assumes "\<forall>ev \<in> set acc. \<exists>k::int. 0 \<le> k \<and> positive_change ev = Fin (fl (of_int k / 100))"
    and "fst (changes_loop api cn s i xs acc w) = Inr evs"
  shows "\<forall>ev \<in> set evs. \<exists>k::int. 0 \<le> k \<and> positive_change ev = Fin (fl (of_int k / 100))"
  using assms
proof (induction xs arbitrary: i acc w)
  case Nil
  then show ?case by simp
next
  case (Cons x xs)
  show ?case
  proof (cases "i \<noteq> length s - 1")
    case False
    with Cons.prems have "fst (changes_loop api cn s (i + 1) xs acc w) = Inr evs" by simp
    with Cons.prems(1) show ?thesis by (rule Cons.IH)
  next
    case True
    note ne = this
    from Cons.prems(2) ne obtain a b where a: "iat s i = Inr a" and b: "iat s (i + 1) = Inr b"
      by (auto simp: Let_def split: sum.splits)
    show ?thesis
    proof (cases "fge (fabs (fsub a b)) (fmul x (Fin (fl (1 / 100))))")
      case False
      with Cons.prems(2) ne a b have "fst (changes_loop api cn s (i + 1) xs acc w) = Inr evs"
        by (simp add: Let_def)
      with Cons.prems(1) show ?thesis by (rule Cons.IH)
    next
      case True
      from Cons.prems(2) ne a b True obtain d t where
        r: "fst (changes_loop api cn s (i + 1) xs
              (acc @ [\<lparr>company = cn, date = d, positive_change = round2 (fabs (fsub a b)), title = t\<rparr>])
              (w\<lparr>news_requests := news_requests w @ [(cn, d)]\<rparr>)) = Inr evs"
        by (auto simp: Let_def fetch_top_headline_eq split: sum.splits)
      have "\<forall>ev \<in> set (acc @ [\<lparr>company = cn, date = d, positive_change = round2 (fabs (fsub a b)), title = t\<rparr>]).
               \<exists>k::int. 0 \<le> k \<and> positive_change ev = Fin (fl (of_int k / 100))"
        using Cons.prems(1) round2_change [OF True] by auto
      then show ?thesis using r by (rule Cons.IH)
    qed
  qed
qed

lemma process_stock_prices_two_places:
  assumes "fst (process_stock_prices tf api sn cn sj w) = Inr evs"
  shows "\<forall>ev \<in> set evs. \<exists>k::int. 0 \<le> k \<and> positive_change ev = Fin (fl (of_int k / 100))"
proof -
  from assms have "fst (process_stock_prices_try tf api cn sj w) = Inr evs"
    by (auto simp: process_stock_prices_def split: prod.splits sum.splits exn.splits)
  then obtain s where "fst (changes_loop api cn s 0 (map snd s) [] w) = Inr evs"
    by (auto simp: process_stock_prices_try_def DataFrame_stock_def split: option.splits stock_section.splits sum.splits)
  then show ?thesis
    using changes_loop_two_places [of "[]" api cn s 0 "map snd s" w evs] by simp
qed

lemma run_batch_two_places:
  assumes "\<forall>ev \<in> set res_df. \<exists>k::int. 0 \<le> k \<and> positive_change ev = Fin (fl (of_int k / 100))"
  shows "\<forall>ev \<in> set (fst (run_batch tf sapi napi companies res_df w)).
           \<exists>k::int. 0 \<le> k \<and> positive_change ev = Fin (fl (of_int k / 100))"
  using assms
proof (induction companies arbitrary: res_df w)
  case Nil
  then show ?case by simp
next
  case (Cons c companies)
  obtain key val where c: "c = (key, val)" by (cases c)
  show ?case
  proof (cases "sapi key")
    case (Inl ex)
    then show ?thesis using Cons.IH [OF Cons.prems] by (simp add: c get_stock_prices_def)
  next
    case (Inr sj)
    let ?w1 = "w\<lparr>stock_requests := stock_requests w @ [key]\<rparr>"
    obtain r w2 where p: "process_stock_prices tf napi key val sj ?w1 = (r, w2)"
      by (cases "process_stock_prices tf napi key val sj ?w1")
    show ?thesis
    proof (cases r)
      case (Inl ex)
      then show ?thesis using Cons.IH [OF Cons.prems] by (simp add: c Inr get_stock_prices_def p)
    next
      case (Inr stock_df)
      with p have "fst (process_stock_prices tf napi key val sj ?w1) = Inr stock_df" by simp
      then have "\<forall>ev \<in> set stock_df. \<exists>k::int. 0 \<le> k \<and> positive_change ev = Fin (fl (of_int k / 100))"
        by (rule process_stock_prices_two_places)
      with Cons.prems have "\<forall>ev \<in> set (res_df @ stock_df).
          \<exists>k::int. 0 \<le> k \<and> positive_change ev = Fin (fl (of_int k / 100))" by auto
      then have "\<forall>ev \<in> set (fst (run_batch tf sapi napi companies (res_df @ stock_df) w2)).
          \<exists>k::int. 0 \<le> k \<and> positive_change ev = Fin (fl (of_int k / 100))"
        by (rule Cons.IH)
      then show ?thesis using Inr \<open>sapi key = Inr sj\<close>
        by (simp add: c get_stock_prices_def p)
    qed
  qed
qed

lemma persistence_block_files:
  "out_result_csv (persistence_block eng res_df w) = out_result_csv w
   \<and> to_sql_rows (persistence_block eng res_df w) = to_sql_rows w @ [res_df]"
  by (auto simp: persistence_block_def load_to_db_def read_from_db_def log_error_def Let_def
        split: sum.splits)

text \<open>
  C7. After the run the first file holds a report, the same report is what was handed to
  the table's append, and the change of every event in it is the binary64 number nearest
  to a whole number of hundredths that is not negative.
\<close>

theorem main_changes_two_places:
  "\<exists>rep. out_result_csv (main to_float sapi napi eng companies w) = Some rep
     \<and> to_sql_rows (main to_float sapi napi eng companies w) = to_sql_rows w @ [rep]
     \<and> (\<forall>ev \<in> set rep. \<exists>k::int. 0 \<le> k \<and> positive_change ev = Fin (fl (of_int k / 100)))"
proof -
  obtain res_df w1 where r: "run_batch to_float sapi napi companies [] w = (res_df, w1)"
    by (cases "run_batch to_float sapi napi companies [] w")
  obtain reqs es where "w1 = w\<lparr>stock_requests := stock_requests w @ map fst companies,
       news_requests := news_requests w @ reqs, logged_exceptions := logged_exceptions w @ es\<rparr>"
    using run_batch_world [of to_float sapi napi companies "[]" w w] r by auto
  then have "to_sql_rows w1 = to_sql_rows w" by simp
  moreover have "\<forall>ev \<in> set res_df. \<exists>k::int. 0 \<le> k \<and> positive_change ev = Fin (fl (of_int k / 100))"
    using run_batch_two_places [of "[]" to_float sapi napi companies w] r by simp
  ultimately show ?thesis
    by (simp add: main_def r persistence_block_files)
qed

theorem main_changes_two_places_witness:
  "out_result_csv (main ex_to_float ex_stock_api ex_news_api ex_engine ex_companies ex_world)
     = Some [\<lparr>company = ''Ibm'', date = ''2024-01-03'', positive_change = Fin 2,
               title = Str ''T-2024-01-03''\<rparr>,
             \<lparr>company = ''Oracle'', date = ''2024-01-03'', positive_change = Fin 2,
               title = Str ''T-2024-01-03''\<rparr>,
             \<lparr>company = ''Oracle'', date = ''2024-01-02'', positive_change = Fin 2,
               title = Str ''T-2024-01-02''\<rparr>]
   \<and> (\<exists>k::int. 0 \<le> k \<and> Fin 2 = Fin (fl (of_int k / 100)))"
proof -
  have run: "out_result_csv (main ex_to_float ex_stock_api ex_news_api ex_engine ex_companies ex_world)
     = Some [\<lparr>company = ''Ibm'', date = ''2024-01-03'', positive_change = Fin 2,
               title = Str ''T-2024-01-03''\<rparr>,
             \<lparr>company = ''Oracle'', date = ''2024-01-03'', positive_change = Fin 2,
               title = Str ''T-2024-01-03''\<rparr>,
             \<lparr>company = ''Oracle'', date = ''2024-01-02'', positive_change = Fin 2,
               title = Str ''T-2024-01-02''\<rparr>]"
    by code_simp
  obtain rep where
    "out_result_csv (main ex_to_float ex_stock_api ex_news_api ex_engine ex_companies ex_world) = Some rep"
    and all: "\<forall>ev \<in> set rep. \<exists>k::int. 0 \<le> k \<and> positive_change ev = Fin (fl (of_int k / 100))"
    using main_changes_two_places [of ex_to_float ex_stock_api ex_news_api ex_engine ex_companies ex_world]
    by blast
  with run have "\<lparr>company = ''Ibm'', date = ''2024-01-03'', positive_change = Fin 2,
               title = Str ''T-2024-01-03''\<rparr> \<in> set rep" by simp
  with all have "\<exists>k::int. 0 \<le> k
      \<and> positive_change \<lparr>company = ''Ibm'', date = ''2024-01-03'', positive_change = Fin 2,
               title = Str ''T-2024-01-03''\<rparr> = Fin (fl (of_int k / 100))" by blast
  then have "\<exists>k::int. 0 \<le> k \<and> Fin 2 = Fin (fl (of_int k / 100))" by simp
  with run show ?thesis by blast
qed

subsection \<open>The window of three closing prices\<close>

lemma uniq_append_distinct:
  "distinct xs \<Longrightarrow> uniq (xs @ ys) = xs @ filter (\<lambda>y. y \<notin> set xs) (uniq ys)"
proof (induction xs)
  case Nil
  show ?case by simp
next
  case (Cons x xs)
  from Cons.prems have "filter (\<lambda>y. y \<noteq> x) xs = xs" by (auto simp: filter_id_conv)
  with Cons show ?case by (auto simp: conj_commute intro: filter_cong)
qed

text \<open>The first rows of the frame are the fields of the first day, in their order.\<close>

lemma frame_index_first_day:
  assumes "distinct (map fst ra)" and "i < length ra"
  shows "i < length (frame_index ((da, ra) # rest)) \<and> frame_index ((da, ra) # rest) ! i = fst (ra ! i)"
  using assms by (simp add: frame_index_def uniq_append_distinct nth_append)

lemma map_of_field:
  assumes "distinct (map fst r)" and "i < length r"
  shows "map_of r (fst (r ! i)) = Some (snd (r ! i))"
proof -
  have "(fst (r ! i), snd (r ! i)) \<in> set r" using assms(2) by simp
  with assms(1) show ?thesis by (rule map_of_is_SomeI)
qed

lemma map_of_field_same_keys:
  assumes "distinct (map fst ra)" and "i < length ra" and "map fst rb = map fst ra"
  shows "map_of rb (fst (ra ! i)) = Some (snd (rb ! i))"
proof -
  have l: "length rb = length ra" using assms(3) by (metis length_map)
  have "fst (rb ! i) = fst (ra ! i)"
    using assms(2,3) l by (metis nth_map)
  moreover have "map_of rb (fst (rb ! i)) = Some (snd (rb ! i))"
    using assms l by (simp add: map_of_field)
  ultimately show ?thesis by simp
qed

text \<open>
  C8. Let the series start with three days whose records have the same field names, at
  least four of them, and let the fourth value of each be readable as a float. Then the
  window is made of exactly these three (date, fourth value) pairs, it is ordered by date,
  and the change detection runs on it.
\<close>

theorem closing_window_fourth_row_sorted:
  assumes "map_of stock_json ''Time Series (Daily)'' = Some (Series ts)"
    and "ts = (da, ra) # (db, rb) # (dc, rc) # rest"
    and "distinct (map fst ra)" and "4 \<le> length ra"
    and "map fst rb = map fst ra" and "map fst rc = map fst ra"
    and "to_float (snd (ra ! 3)) = Some pa"
    and "to_float (snd (rb ! 3)) = Some pb"
    and "to_float (snd (rc ! 3)) = Some pc"
  shows "\<exists>s. closing_window to_float ts = Inr s
           \<and> sorted (map fst s)
           \<and> mset s = {#(da, pa), (db, pb), (dc, pc)#}
           \<and> process_stock_prices_try to_float api company_name stock_json w
               = changes_loop api company_name s 0 (map snd s) [] w"
proof -
  have i: "3 < length ra" using assms(4) by simp
  have idx: "3 < length (frame_index ts)" "frame_index ts ! 3 = fst (ra ! 3)"
    using frame_index_first_day [OF assms(3) i] assms(2) by simp_all
  have a: "map_of ra (fst (ra ! 3)) = Some (snd (ra ! 3))"
    using assms(3) i by (rule map_of_field)
  have b: "map_of rb (fst (ra ! 3)) = Some (snd (rb ! 3))"
    using assms(3) i assms(5) by (rule map_of_field_same_keys)
  have c: "map_of rc (fst (ra ! 3)) = Some (snd (rc ! 3))"
    using assms(3) i assms(6) by (rule map_of_field_same_keys)
  have row: "iloc_3_upto_3 ts
               = Inr [(da, Some (snd (ra ! 3))), (db, Some (snd (rb ! 3))), (dc, Some (snd (rc ! 3)))]"
    using idx a b c by (simp add: iloc_3_upto_3_def Let_def assms(2))
  have win: "closing_window to_float ts = Inr (sort_index [(da, pa), (db, pb), (dc, pc)])"
    by (simp add: closing_window_def row assms(7,8,9))
  have "sorted (map fst (sort_index [(da, pa), (db, pb), (dc, pc)]))"
    unfolding sort_index_def by (rule sorted_sort_key)
  moreover have "mset (sort_index [(da, pa), (db, pb), (dc, pc)]) = {#(da, pa), (db, pb), (dc, pc)#}"
    unfolding sort_index_def by (simp only: mset_sort) simp
  moreover have "process_stock_prices_try to_float api company_name stock_json w
      = changes_loop api company_name (sort_index [(da, pa), (db, pb), (dc, pc)]) 0
          (map snd (sort_index [(da, pa), (db, pb), (dc, pc)])) [] w"
    by (simp add: process_stock_prices_try_def DataFrame_stock_def assms(1) win)
  ultimately show ?thesis using win by blast
qed

theorem closing_window_fourth_row_sorted_witness:
  "closing_window ex_to_float ex_series_rise
     = Inr [(''2024-01-02'', Fin 100), (''2024-01-03'', Fin 102), (''2024-01-04'', Fin (203 / 2))]
   \<and> sorted (map fst [(''2024-01-02'', Fin 100), (''2024-01-03'', Fin 102), (''2024-01-04'', Fin (203 / 2))])
   \<and> mset [(''2024-01-02'', Fin 100), (''2024-01-03'', Fin 102), (''2024-01-04'', Fin (203 / 2))]
       = {#(''2024-01-04'', Fin (203 / 2)), (''2024-01-03'', Fin 102), (''2024-01-02'', Fin 100)#}"
proof -
  have win: "closing_window ex_to_float ex_series_rise
     = Inr [(''2024-01-02'', Fin 100), (''2024-01-03'', Fin 102), (''2024-01-04'', Fin (203 / 2))]"
    by code_simp
  have k: "map_of [(''Time Series (Daily)'', Series ex_series_rise)] ''Time Series (Daily)''
             = Some (Series ex_series_rise)" by simp
  have ts: "ex_series_rise = (''2024-01-04'', ex_day ''101.5'') # (''2024-01-03'', ex_day ''102.0'')
               # (''2024-01-02'', ex_day ''100.0'') # [(''2024-01-01'', ex_day ''1'')]"
    by (simp add: ex_series_rise_def)
  have d: "distinct (map fst (ex_day ''101.5''))" by (simp add: ex_day_def)
  have l: "4 \<le> length (ex_day ''101.5'')" by (simp add: ex_day_def)
  have m1: "map fst (ex_day ''102.0'') = map fst (ex_day ''101.5'')" by (simp add: ex_day_def)
  have m2: "map fst (ex_day ''100.0'') = map fst (ex_day ''101.5'')" by (simp add: ex_day_def)
  have f1: "ex_to_float (snd (ex_day ''101.5'' ! 3)) = Some (Fin (203 / 2))"
    by (simp add: ex_day_def ex_to_float_def)
  have f2: "ex_to_float (snd (ex_day ''102.0'' ! 3)) = Some (Fin 102)"
    by (simp add: ex_day_def ex_to_float_def)
  have f3: "ex_to_float (snd (ex_day ''100.0'' ! 3)) = Some (Fin 100)"
    by (simp add: ex_day_def ex_to_float_def)
  from closing_window_fourth_row_sorted
         [OF k ts d l m1 m2 f1 f2 f3, of ex_news_api "''Ibm''" ex_world] win
  show ?thesis by auto
qed

subsection \<open>Change detection\<close>

text \<open>
  The loop on a window of three prices: one row per pair whose rounded difference is at
  least the rounded hundredth of the earlier price, in the order of the pairs.
\<close>

lemma changes_loop_three:
  "fst (changes_loop api cn [(d0, Fin p0), (d1, Fin p1), (d2, Fin p2)] 0 [Fin p0, Fin p1, Fin p2] [] w) = Inr evs
   \<Longrightarrow> map positive_change evs =
        concat (map (\<lambda>(a, b). if fl (a * fl (1 / 100)) \<le> \<bar>fl (a - b)\<bar>
                                then [round2 (Fin \<bar>fl (a - b)\<bar>)] else [])
                  [(p0, p1), (p1, p2)])"
  by (auto simp: Let_def iat_def first_label_eq_def fetch_top_headline_eq split: sum.splits if_splits)

lemma changes_loop_three_returns:
  assumes "\<forall>d. \<exists>nj t. api cn d = Inr nj \<and> process_news nj = Inr t"
  shows "\<exists>evs. fst (changes_loop api cn [(d0, Fin p0), (d1, Fin p1), (d2, Fin p2)] 0 [Fin p0, Fin p1, Fin p2] [] w) = Inr evs"
proof -
  have h: "\<exists>t. (case api cn d of Inl e \<Rightarrow> Inl e | Inr nj \<Rightarrow> process_news nj) = Inr t" for d
    using assms [rule_format, of d] by auto
  then obtain f where f: "\<And>d. (case api cn d of Inl e \<Rightarrow> Inl e | Inr nj \<Rightarrow> process_news nj) = Inr (f d)"
    by metis
  show ?thesis
    by (simp add: Let_def iat_def first_label_eq_def fetch_top_headline_eq f)
qed

text \<open>The rows of the qualifying pairs carry changes rounded to two places.\<close>

lemma rounded_changes:
  "list_all2
     (\<lambda>c (a, b). \<exists>k::int. c = Fin (fl (of_int k / 100))
          \<and> \<bar>of_int k / 100 - \<bar>fl (a - b)\<bar>\<bar> \<le> 1 / 200 + \<bar>fl (a - b)\<bar> / 2 ^ 53 + 2 powi (- 1075))
     (concat (map (\<lambda>(a, b). if fl (a * fl (1 / 100)) \<le> \<bar>fl (a - b)\<bar>
                                then [round2 (Fin \<bar>fl (a - b)\<bar>)] else []) ps))
     (filter (\<lambda>(a, b). fl (a * fl (1 / 100)) \<le> \<bar>fl (a - b)\<bar>) ps)"
proof (induction ps)
  case Nil
  show ?case by simp
next
  case (Cons p ps)
  obtain a b where p: "p = (a, b)" by (cases p)
  have "0 \<le> \<bar>fl (a - b)\<bar>" by simp
  from round2_pin [OF this] obtain k :: int where
    "round2 (Fin \<bar>fl (a - b)\<bar>) = Fin (fl (of_int k / 100))"
    "\<bar>of_int k / 100 - \<bar>fl (a - b)\<bar>\<bar> \<le> 1 / 200 + \<bar>fl (a - b)\<bar> / 2 ^ 53 + 2 powi (- 1075)"
    by blast
  then have "\<exists>k::int. round2 (Fin \<bar>fl (a - b)\<bar>) = Fin (fl (of_int k / 100))
      \<and> \<bar>of_int k / 100 - \<bar>fl (a - b)\<bar>\<bar> \<le> 1 / 200 + \<bar>fl (a - b)\<bar> / 2 ^ 53 + 2 powi (- 1075)"
    by blast
  with Cons.IH show ?case by (simp add: p)
qed

text \<open>
  C1. Let the window hold the three prices \<open>p0\<close>, \<open>p1\<close>, \<open>p2\<close> in the order of
  their dates. When the processing returns a frame, its rows are, in this order, one for
  each pair \<open>(a, b)\<close> among \<open>(p0, p1)\<close> and \<open>(p1, p2)\<close> with
  \<open>0.01 * a \<le> \<bar>a - b\<bar>\<close> in binary64 arithmetic, and no other. The change of such a row
  is the binary64 number nearest to a hundredth, and that hundredth is within half a
  hundredth of \<open>\<bar>a - b\<bar>\<close>, up to one rounding error of the product with 100. The
  processing does return a frame when every news request of the company gives a response
  that can be read.
\<close>

theorem process_stock_prices_one_percent:
  assumes "map_of stock_json ''Time Series (Daily)'' = Some (Series ts)"
    and "closing_window to_float ts = Inr [(d0, Fin p0), (d1, Fin p1), (d2, Fin p2)]"
  shows "(\<forall>evs. fst (process_stock_prices to_float api stock_name company_name stock_json w) = Inr evs \<longrightarrow>
            list_all2
              (\<lambda>c (a, b). \<exists>k::int. c = Fin (fl (of_int k / 100))
                   \<and> \<bar>of_int k / 100 - \<bar>fl (a - b)\<bar>\<bar>
                       \<le> 1 / 200 + \<bar>fl (a - b)\<bar> / 2 ^ 53 + 2 powi (- 1075))
              (map positive_change evs)
              (filter (\<lambda>(a, b). fl (a * fl (1 / 100)) \<le> \<bar>fl (a - b)\<bar>) [(p0, p1), (p1, p2)]))
       \<and> ((\<forall>d. \<exists>nj t. api company_name d = Inr nj \<and> process_news nj = Inr t) \<longrightarrow>
            (\<exists>evs. fst (process_stock_prices to_float api stock_name company_name stock_json w) = Inr evs))"
proof -
  let ?loop = "changes_loop api company_name [(d0, Fin p0), (d1, Fin p1), (d2, Fin p2)] 0
                 [Fin p0, Fin p1, Fin p2] [] w"
  have body: "process_stock_prices_try to_float api company_name stock_json w = ?loop"
    using assms by (simp add: process_stock_prices_try_def DataFrame_stock_def)
  have res: "fst (process_stock_prices to_float api stock_name company_name stock_json w) = Inr evs
               \<longleftrightarrow> fst ?loop = Inr evs" for evs
    unfolding process_stock_prices_def body
    by (cases ?loop) (auto split: sum.splits exn.splits)
  have rows: "list_all2
              (\<lambda>c (a, b). \<exists>k::int. c = Fin (fl (of_int k / 100))
                   \<and> \<bar>of_int k / 100 - \<bar>fl (a - b)\<bar>\<bar>
                       \<le> 1 / 200 + \<bar>fl (a - b)\<bar> / 2 ^ 53 + 2 powi (- 1075))
              (map positive_change evs)
              (filter (\<lambda>(a, b). fl (a * fl (1 / 100)) \<le> \<bar>fl (a - b)\<bar>) [(p0, p1), (p1, p2)])"
    if "fst ?loop = Inr evs" for evs
    using rounded_changes [of "[(p0, p1), (p1, p2)]"]
    by (simp only: changes_loop_three [OF that])
  show ?thesis
    using rows changes_loop_three_returns [of api company_name d0 p0 d1 p1 d2 p2 w]
    by (simp add: res)
qed

theorem process_stock_prices_one_percent_witness:
  "closing_window ex_to_float ex_series_rise
     = Inr [(''2024-01-02'', Fin 100), (''2024-01-03'', Fin 102), (''2024-01-04'', Fin (203 / 2))]
   \<and> fst (process_stock_prices ex_to_float ex_news_api ''IBM'' ''Ibm''
           [(''Time Series (Daily)'', Series ex_series_rise)] ex_world)
       = Inr [\<lparr>company = ''Ibm'', date = ''2024-01-03'', positive_change = Fin 2,
                title = Str ''T-2024-01-03''\<rparr>]
   \<and> list_all2
        (\<lambda>c (a, b). \<exists>k::int. c = Fin (fl (of_int k / 100))
             \<and> \<bar>of_int k / 100 - \<bar>fl (a - b)\<bar>\<bar>
                 \<le> 1 / 200 + \<bar>fl (a - b)\<bar> / 2 ^ 53 + 2 powi (- 1075))
        [Fin 2]
        (filter (\<lambda>(a, b). fl (a * fl (1 / 100)) \<le> \<bar>fl (a - b)\<bar>) [(100, 102), (102, 203 / 2)])
   \<and> filter (\<lambda>(a, b). fl (a * fl (1 / 100)) \<le> \<bar>fl (a - b)\<bar>) [(100, 102), (102, 203 / 2 :: rat)]
       = [(100, 102)]
   \<and> (\<exists>evs. fst (process_stock_prices ex_to_float ex_news_api ''IBM'' ''Ibm''
           [(''Time Series (Daily)'', Series ex_series_rise)] ex_world) = Inr evs)"
proof -
  have k: "map_of [(''Time Series (Daily)'', Series ex_series_rise)] ''Time Series (Daily)''
             = Some (Series ex_series_rise)" by simp
  have win: "closing_window ex_to_float ex_series_rise
     = Inr [(''2024-01-02'', Fin 100), (''2024-01-03'', Fin 102), (''2024-01-04'', Fin (203 / 2))]"
    by code_simp
  have run: "fst (process_stock_prices ex_to_float ex_news_api ''IBM'' ''Ibm''
                 [(''Time Series (Daily)'', Series ex_series_rise)] ex_world)
          = Inr [\<lparr>company = ''Ibm'', date = ''2024-01-03'', positive_change = Fin 2,
                   title = Str ''T-2024-01-03''\<rparr>]"
    by code_simp
  have pairs: "filter (\<lambda>(a, b). fl (a * fl (1 / 100)) \<le> \<bar>fl (a - b)\<bar>) [(100, 102), (102, 203 / 2 :: rat)]
       = [(100, 102)]"
    by code_simp
  have news: "\<forall>d. \<exists>nj t. ex_news_api ''Ibm'' d = Inr nj \<and> process_news nj = Inr t"
    by (simp add: ex_news_api_def process_news_def DataFrame_news_def loc0_def frame_columns_def)
  note inst = process_stock_prices_one_percent [OF k win, of ex_news_api "''IBM''" "''Ibm''" ex_world]
  from inst run
  have "list_all2
        (\<lambda>c (a, b). \<exists>k::int. c = Fin (fl (of_int k / 100))
             \<and> \<bar>of_int k / 100 - \<bar>fl (a - b)\<bar>\<bar>
                 \<le> 1 / 200 + \<bar>fl (a - b)\<bar> / 2 ^ 53 + 2 powi (- 1075))
        (map positive_change [\<lparr>company = ''Ibm'', date = ''2024-01-03'', positive_change = Fin 2,
                   title = Str ''T-2024-01-03''\<rparr>])
        (filter (\<lambda>(a, b). fl (a * fl (1 / 100)) \<le> \<bar>fl (a - b)\<bar>) [(100, 102), (102, 203 / 2)])"
    by blast
  then have "list_all2
        (\<lambda>c (a, b). \<exists>k::int. c = Fin (fl (of_int k / 100))
             \<and> \<bar>of_int k / 100 - \<bar>fl (a - b)\<bar>\<bar>
                 \<le> 1 / 200 + \<bar>fl (a - b)\<bar> / 2 ^ 53 + 2 powi (- 1075))
        [Fin 2]
        (filter (\<lambda>(a, b). fl (a * fl (1 / 100)) \<le> \<bar>fl (a - b)\<bar>) [(100, 102), (102, 203 / 2)])"
    by (simp only: list.map change_event.simps)
  moreover from inst news
  have "\<exists>evs. fst (process_stock_prices ex_to_float ex_news_api ''IBM'' ''Ibm''
           [(''Time Series (Daily)'', Series ex_series_rise)] ex_world) = Inr evs"
    by blast
  ultimately show ?thesis using win run pairs by blast
qed

subsection \<open>Binary rounding at ordinary prices\<close>

text \<open>
  The binary64 number nearest to a hundredth is 5764607523034235 / 2^59, and 100 is a
  binary64 number. The binary64 number nearest to 2.675 lies below it, yet its product with 100 rounds to
  267.5 and the tie goes to 268: the change is 2.68. From 100.0 to 102.675 the
  difference is below 2.675 and the change is 2.67. From 10.0 to 10.1 the difference is
  below the binary64 number nearest to a tenth, and no event is reported.
\<close>

lemma fl_one_percent: "fl (1 / 100) = 5764607523034235 / 2 ^ 59"
  by code_simp

lemma fl_hundred: "fl 100 = 100"
  by code_simp

lemma round2_product_tie: "round2 (Fin (fl (2675 / 1000))) = Fin (fl (268 / 100))"
  by code_simp

lemma round2_difference_below_tie:
  "round2 (fabs (fsub (Fin 100) (Fin (fl (102675 / 1000))))) = Fin (fl (267 / 100))"
  by code_simp

lemma tenth_below_one_percent:
  "\<not> fge (fabs (fsub (Fin 10) (Fin (fl (101 / 10))))) (fmul (Fin 10) (Fin (fl (1 / 100))))"
  by code_simp

lemma ex_series_tenth_no_event:
  "fst (process_stock_prices ex_to_float ex_news_api ''IBM'' ''Ibm''
          [(''Time Series (Daily)'', Series ex_series_tenth)] ex_world) = Inr []"
  by code_simp

subsection \<open>The date of an event\<close>

text \<open>
  The date of an event is looked up by the value of the later price. When the three prices
  are pairwise different the lookup finds the later observation: the date of every event
  is that of the later observation of its pair, and the news service is asked for exactly
  the company and that date.
\<close>

lemma changes_loop_three_dates:
  assumes "p0 \<noteq> p1" and "p1 \<noteq> p2" and "p0 \<noteq> p2"
    and "changes_loop api cn [(d0, Fin p0), (d1, Fin p1), (d2, Fin p2)] 0 [Fin p0, Fin p1, Fin p2] [] w
           = (Inr evs, w')"
  shows "map date evs =
           concat (map (\<lambda>(a, b, d). if fl (a * fl (1 / 100)) \<le> \<bar>fl (a - b)\<bar> then [d] else [])
                     [(p0, p1, d1), (p1, p2, d2)])
         \<and> news_requests w' = news_requests w @ map (\<lambda>ev. (cn, date ev)) evs"
  using assms
  by (auto simp: Let_def iat_def first_label_eq_def fetch_top_headline_eq split: sum.splits if_splits)

text \<open>
  C2 does not hold of the code. The prices are 100, 102, 100 on the 2nd, 3rd and 4th of
  January. The pair of the 3rd and the 4th qualifies; its event carries the 2nd of
  January, the first date whose price is 100, and the news service is asked for that date.
\<close>

theorem process_stock_prices_repeated_price_date:
  "closing_window ex_to_float ex_series_peak
     = Inr [(''2024-01-02'', Fin 100), (''2024-01-03'', Fin 102), (''2024-01-04'', Fin 100)]
   \<and> process_stock_prices ex_to_float ex_news_api ''ORCL'' ''Oracle''
       [(''Time Series (Daily)'', Series ex_series_peak)] ex_world
     = (Inr [\<lparr>company = ''Oracle'', date = ''2024-01-03'', positive_change = Fin 2,
               title = Str ''T-2024-01-03''\<rparr>,
             \<lparr>company = ''Oracle'', date = ''2024-01-02'', positive_change = Fin 2,
               title = Str ''T-2024-01-02''\<rparr>],
        ex_world\<lparr>news_requests := [(''Oracle'', ''2024-01-03''), (''Oracle'', ''2024-01-02'')]\<rparr>)"
  by code_simp

subsection \<open>The events of one company\<close>

lemma changes_loop_length:
  assumes "fst (changes_loop api cn s i xs acc w) = Inr evs" and "i + length xs = length s"
  shows "length evs \<le> length acc + (length xs - 1)"
  using assms
proof (induction xs arbitrary: i acc w)
  case Nil
  then show ?case by simp
next
  case (Cons x xs)
  show ?case
  proof (cases "i \<noteq> length s - 1")
    case False
    have e: "i + Suc (length xs) = length s" using Cons.prems(2) by simp
    have "length xs = 0" using e False by arith
    then have "xs = []" by simp
    with Cons.prems(1) False show ?thesis by simp
  next
    case True
    with Cons.prems(2) have xs: "1 \<le> length xs" by (cases xs) auto
    from Cons.prems(2) have l: "(i + 1) + length xs = length s" by simp
    from Cons.prems(1) True obtain acc' w' where
      r: "fst (changes_loop api cn s (i + 1) xs acc' w') = Inr evs" and a: "length acc' \<le> length acc + 1"
      by (auto simp: Let_def fetch_top_headline_eq split: sum.splits if_splits)
    from Cons.IH [OF r l] a xs show ?thesis by simp
  qed
qed

lemma astype_float_length:
  "astype_float tf xs = Inr ys \<Longrightarrow> length ys = length xs"
  by (induction xs arbitrary: ys) (auto split: option.splits sum.splits)

lemma closing_window_length:
  assumes "closing_window tf ts = Inr s"
  shows "length s \<le> 3"
proof -
  from assms obtain row fs where "iloc_3_upto_3 ts = Inr row" and "astype_float tf row = Inr fs"
    and s: "s = sort_index fs"
    by (auto simp: closing_window_def split: sum.splits)
  then have "length fs \<le> 3"
    by (auto simp: iloc_3_upto_3_def Let_def dest!: astype_float_length split: if_splits)
  with s show ?thesis by (simp add: sort_index_def)
qed

text \<open>A company contributes at most two events.\<close>

lemma process_stock_prices_at_most_two:
  assumes "fst (process_stock_prices tf api sn cn sj w) = Inr evs"
  shows "length evs \<le> 2"
proof -
  from assms have "fst (process_stock_prices_try tf api cn sj w) = Inr evs"
    by (auto simp: process_stock_prices_def split: prod.splits sum.splits exn.splits)
  then obtain ts s where "closing_window tf ts = Inr s"
    and r: "fst (changes_loop api cn s 0 (map snd s) [] w) = Inr evs"
    by (auto simp: process_stock_prices_try_def DataFrame_stock_def split: option.splits stock_section.splits sum.splits)
  then have "length s \<le> 3" by (simp add: closing_window_length)
  with changes_loop_length [OF r] show ?thesis by simp
qed

text \<open>
  C9 does not hold of the code. The report is the concatenation in list order
  (\<open>run_batch_result\<close>) and a company contributes at most two events
  (\<open>process_stock_prices_at_most_two\<close>), but with the prices 100, 102, 100 the two events
  of the company are dated the 3rd and then the 2nd of January.
\<close>

theorem run_batch_repeated_price_order:
  "map date (fst (run_batch ex_to_float ex_stock_api ex_news_api [(''ORCL'', ''Oracle'')] [] ex_world))
     = [''2024-01-03'', ''2024-01-02'']
   \<and> \<not> sorted [''2024-01-03'', ''2024-01-02'']"
  by code_simp

end
